theory Spec2Isabelle
  imports Complex_Main
begin

section \<open>Disney BRDF demo: parameter store, presentation adapter, torus knot\<close>

text \<open>
  The script \<^verbatim>\<open>disney_brdf_pyvista.py\<close> keeps one global dictionary of material
  parameters, pushes it into two toolkit actors and redraws. Python floats are modelled as
  \<^typ>\<open>real\<close> (exact arithmetic, no rounding), Python ints as \<^typ>\<open>int\<close>, the global
  state as a record that every operation takes and returns.
\<close>

subsection \<open>Errors\<close>

text \<open>
  The exceptions the modelled code can raise: \<^verbatim>\<open>ValueError\<close> is what numpy's
  \<^verbatim>\<open>linspace\<close> raises for a negative sample count, \<^verbatim>\<open>IndexError\<close> what a list item
  assignment raises out of range, \<^verbatim>\<open>ToolkitError\<close> stands for any failure inside the
  rendering toolkit.
\<close>

datatype error = ValueError | IndexError | ToolkitError

subsection \<open>The parameter store (lines 31-40)\<close>

record parameter_store =
  base_color :: "real list"
  metallic :: real
  roughness :: real
  specular :: real
  anisotropic :: real
  anisotropic_rotation :: real
  clearcoat :: real
  clearcoat_roughness :: real

definition params :: parameter_store where
  "params = \<lparr> base_color = [0.5, 0.5, 0.5],
              metallic = 0.0,
              roughness = 0.5,
              specular = 0.5,
              anisotropic = 0.0,
              anisotropic_rotation = 0.0,
              clearcoat = 0.0,
              clearcoat_roughness = 0.0 \<rparr>"

subsection \<open>Toolkit actors and the plotter\<close>

text \<open>
  The property object of a toolkit actor, restricted to the eight properties the script
  writes. Each setter stores its argument; the toolkit's own range checks are outside the
  script.
\<close>

record actor_property =
  Color :: "real list"
  Metallic :: real
  Roughness :: real
  BaseIOR :: real
  Anisotropy :: real
  AnisotropyRotation :: real
  CoatStrength :: real
  CoatRoughness :: real

definition SetColor :: "real list \<Rightarrow> actor_property \<Rightarrow> actor_property" where
  "SetColor c a = a\<lparr>Color := c\<rparr>"

definition SetMetallic :: "real \<Rightarrow> actor_property \<Rightarrow> actor_property" where
  "SetMetallic v a = a\<lparr>Metallic := v\<rparr>"

definition SetRoughness :: "real \<Rightarrow> actor_property \<Rightarrow> actor_property" where
  "SetRoughness v a = a\<lparr>Roughness := v\<rparr>"

definition SetBaseIOR :: "real \<Rightarrow> actor_property \<Rightarrow> actor_property" where
  "SetBaseIOR v a = a\<lparr>BaseIOR := v\<rparr>"

definition SetAnisotropy :: "real \<Rightarrow> actor_property \<Rightarrow> actor_property" where
  "SetAnisotropy v a = a\<lparr>Anisotropy := v\<rparr>"

definition SetAnisotropyRotation :: "real \<Rightarrow> actor_property \<Rightarrow> actor_property" where
  "SetAnisotropyRotation v a = a\<lparr>AnisotropyRotation := v\<rparr>"

definition SetCoatStrength :: "real \<Rightarrow> actor_property \<Rightarrow> actor_property" where
  "SetCoatStrength v a = a\<lparr>CoatStrength := v\<rparr>"

definition SetCoatRoughness :: "real \<Rightarrow> actor_property \<Rightarrow> actor_property" where
  "SetCoatRoughness v a = a\<lparr>CoatRoughness := v\<rparr>"

text \<open>
  The whole mutable state of the script: the global dictionary, the two actors, the frames
  the plotter has drawn (each frame records what both actors held when it was drawn) and
  the lines printed so far.
\<close>

record world =
  store :: parameter_store
  sphere_actor :: actor_property
  torus_actor :: actor_property
  frames :: "(actor_property \<times> actor_property) list"
  stdout :: "string list"

definition render :: "world \<Rightarrow> world" where
  "render w = w\<lparr>frames := frames w @ [(sphere_actor w, torus_actor w)]\<rparr>"

text \<open>
  \<^verbatim>\<open>plotter.add_mesh(mesh, color=..., pbr=True, metallic=..., roughness=...)\<close> (lines
  69-85): the three given properties are set, the five others keep the toolkit's defaults
  (base IOR 1.5, the rest 0).
\<close>

definition add_mesh :: "real list \<Rightarrow> real \<Rightarrow> real \<Rightarrow> actor_property" where
  "add_mesh color m r =
     \<lparr> Color = color, Metallic = m, Roughness = r, BaseIOR = 1.5, Anisotropy = 0,
       AnisotropyRotation = 0, CoatStrength = 0, CoatRoughness = 0 \<rparr>"

definition world_init :: world where
  "world_init =
     \<lparr> store = params,
       sphere_actor = add_mesh (base_color params) (metallic params) (roughness params),
       torus_actor = add_mesh (base_color params) (metallic params) (roughness params),
       frames = [],
       stdout = [] \<rparr>"

subsection \<open>The push operation (lines 103-133)\<close>

definition update_materials :: "world \<Rightarrow> world" where
  "update_materials w0 =
     (let color = base_color (store w0);
          ior = 1.0 + specular (store w0) * 0.8;
          w = w0\<lparr>sphere_actor := SetColor color (sphere_actor w0)\<rparr>;
          w = w\<lparr>sphere_actor := SetMetallic (metallic (store w)) (sphere_actor w)\<rparr>;
          w = w\<lparr>sphere_actor := SetRoughness (roughness (store w)) (sphere_actor w)\<rparr>;
          w = w\<lparr>sphere_actor := SetBaseIOR ior (sphere_actor w)\<rparr>;
          w = w\<lparr>sphere_actor := SetAnisotropy (anisotropic (store w)) (sphere_actor w)\<rparr>;
          w = w\<lparr>sphere_actor :=
                  SetAnisotropyRotation (anisotropic_rotation (store w)) (sphere_actor w)\<rparr>;
          w = w\<lparr>sphere_actor := SetCoatStrength (clearcoat (store w)) (sphere_actor w)\<rparr>;
          w = w\<lparr>sphere_actor :=
                  SetCoatRoughness (clearcoat_roughness (store w)) (sphere_actor w)\<rparr>;
          w = w\<lparr>torus_actor := SetColor color (torus_actor w)\<rparr>;
          w = w\<lparr>torus_actor := SetMetallic (metallic (store w)) (torus_actor w)\<rparr>;
          w = w\<lparr>torus_actor := SetRoughness (roughness (store w)) (torus_actor w)\<rparr>;
          w = w\<lparr>torus_actor := SetBaseIOR ior (torus_actor w)\<rparr>;
          w = w\<lparr>torus_actor := SetAnisotropy (anisotropic (store w)) (torus_actor w)\<rparr>;
          w = w\<lparr>torus_actor :=
                  SetAnisotropyRotation (anisotropic_rotation (store w)) (torus_actor w)\<rparr>;
          w = w\<lparr>torus_actor := SetCoatStrength (clearcoat (store w)) (torus_actor w)\<rparr>;
          w = w\<lparr>torus_actor :=
                  SetCoatRoughness (clearcoat_roughness (store w)) (torus_actor w)\<rparr>
      in render w)"

subsection \<open>Slider callbacks (lines 150-188)\<close>

definition update_metallic :: "real \<Rightarrow> world \<Rightarrow> world" where
  "update_metallic v w = update_materials (w\<lparr>store := (store w)\<lparr>metallic := v\<rparr>\<rparr>)"

definition update_roughness :: "real \<Rightarrow> world \<Rightarrow> world" where
  "update_roughness v w = update_materials (w\<lparr>store := (store w)\<lparr>roughness := v\<rparr>\<rparr>)"

definition update_specular :: "real \<Rightarrow> world \<Rightarrow> world" where
  "update_specular v w = update_materials (w\<lparr>store := (store w)\<lparr>specular := v\<rparr>\<rparr>)"

definition update_anisotropic :: "real \<Rightarrow> world \<Rightarrow> world" where
  "update_anisotropic v w = update_materials (w\<lparr>store := (store w)\<lparr>anisotropic := v\<rparr>\<rparr>)"

definition update_anisotropic_rotation :: "real \<Rightarrow> world \<Rightarrow> world" where
  "update_anisotropic_rotation v w =
     update_materials (w\<lparr>store := (store w)\<lparr>anisotropic_rotation := v\<rparr>\<rparr>)"

definition update_clearcoat :: "real \<Rightarrow> world \<Rightarrow> world" where
  "update_clearcoat v w = update_materials (w\<lparr>store := (store w)\<lparr>clearcoat := v\<rparr>\<rparr>)"

definition update_clearcoat_roughness :: "real \<Rightarrow> world \<Rightarrow> world" where
  "update_clearcoat_roughness v w =
     update_materials (w\<lparr>store := (store w)\<lparr>clearcoat_roughness := v\<rparr>\<rparr>)"

text \<open>
  \<^verbatim>\<open>params['base_color'][k] = value\<close> is a list item assignment: Python raises
  \<^verbatim>\<open>IndexError\<close> when the list has no index \<open>k\<close>, and then the push is not reached.
  The list is shared with nothing else: the push copies it into a tuple, and every call of
  \<^verbatim>\<open>apply_preset\<close> builds its dictionaries, and so its colour lists, anew.
\<close>

definition set_channel :: "nat \<Rightarrow> real \<Rightarrow> world \<Rightarrow> error + world" where
  "set_channel k v w =
     (if k < length (base_color (store w))
      then Inr (w\<lparr>store := (store w)\<lparr>base_color := (base_color (store w))[k := v]\<rparr>\<rparr>)
      else Inl IndexError)"

definition update_base_color_r :: "real \<Rightarrow> world \<Rightarrow> error + world" where
  "update_base_color_r v w =
     (case set_channel 0 v w of Inl e \<Rightarrow> Inl e | Inr w' \<Rightarrow> Inr (update_materials w'))"

definition update_base_color_g :: "real \<Rightarrow> world \<Rightarrow> error + world" where
  "update_base_color_g v w =
     (case set_channel 1 v w of Inl e \<Rightarrow> Inl e | Inr w' \<Rightarrow> Inr (update_materials w'))"

definition update_base_color_b :: "real \<Rightarrow> world \<Rightarrow> error + world" where
  "update_base_color_b v w =
     (case set_channel 2 v w of Inl e \<Rightarrow> Inl e | Inr w' \<Rightarrow> Inr (update_materials w'))"

text \<open>
  The ten sliders registered at lines 193-214, named by their titles, each with domain
  \<open>[0.0, 1.0]\<close> and the callback the script passes for it.
\<close>

datatype slider =
  Slider_Red | Slider_Green | Slider_Blue
| Slider_Metallic | Slider_Roughness | Slider_Specular_IOR | Slider_Anisotropic
| Slider_Aniso_Rotation | Slider_Clearcoat | Slider_Clearcoat_Rough

fun callback :: "slider \<Rightarrow> real \<Rightarrow> world \<Rightarrow> error + world" where
  "callback Slider_Red v w = update_base_color_r v w"
| "callback Slider_Green v w = update_base_color_g v w"
| "callback Slider_Blue v w = update_base_color_b v w"
| "callback Slider_Metallic v w = Inr (update_metallic v w)"
| "callback Slider_Roughness v w = Inr (update_roughness v w)"
| "callback Slider_Specular_IOR v w = Inr (update_specular v w)"
| "callback Slider_Anisotropic v w = Inr (update_anisotropic v w)"
| "callback Slider_Aniso_Rotation v w = Inr (update_anisotropic_rotation v w)"
| "callback Slider_Clearcoat v w = Inr (update_clearcoat v w)"
| "callback Slider_Clearcoat_Rough v w = Inr (update_clearcoat_roughness v w)"

definition min_val :: real where "min_val = 0.0"
definition max_val :: real where "max_val = 1.0"

subsection \<open>Presets (lines 218-290)\<close>

text \<open>
  A preset dictionary, and the dictionary of the seven presets as the list of its entries
  with the lookup by key. The keys read with \<^verbatim>\<open>preset[...]\<close> are fields; the keys read with
  \<^verbatim>\<open>preset.get(..., default)\<close> may be absent.
\<close>

record preset =
  preset_color :: "real list"
  preset_metallic :: real
  preset_roughness :: real
  preset_specular :: "real option"
  preset_anisotropic :: "real option"
  preset_clearcoat :: "real option"

definition get :: "real option \<Rightarrow> real \<Rightarrow> real" where
  "get entry dflt = (case entry of None \<Rightarrow> dflt | Some v \<Rightarrow> v)"

definition preset_entries :: "(string \<times> preset) list" where
  "preset_entries =
     [ (''gold'',
          \<lparr> preset_color = [1.0, 0.7, 0.3], preset_metallic = 1.0, preset_roughness = 0.2,
            preset_specular = Some 0.5, preset_anisotropic = Some 0.0,
            preset_clearcoat = Some 0.0 \<rparr>),
       (''chrome'',
          \<lparr> preset_color = [0.88, 0.88, 0.88], preset_metallic = 1.0, preset_roughness = 0.05,
            preset_specular = Some 0.5, preset_anisotropic = Some 0.0,
            preset_clearcoat = Some 0.0 \<rparr>),
       (''plastic'',
          \<lparr> preset_color = [0.8, 0.2, 0.2], preset_metallic = 0.0, preset_roughness = 0.3,
            preset_specular = Some 0.5, preset_anisotropic = Some 0.0,
            preset_clearcoat = Some 0.5 \<rparr>),
       (''rubber'',
          \<lparr> preset_color = [0.15, 0.15, 0.15], preset_metallic = 0.0, preset_roughness = 0.9,
            preset_specular = Some 0.5, preset_anisotropic = Some 0.0,
            preset_clearcoat = Some 0.0 \<rparr>),
       (''wood'',
          \<lparr> preset_color = [0.42, 0.2, 0.06], preset_metallic = 0.0, preset_roughness = 0.7,
            preset_specular = Some 0.5, preset_anisotropic = Some 0.0,
            preset_clearcoat = Some 0.1 \<rparr>),
       (''car_paint'',
          \<lparr> preset_color = [0.8, 0.0, 0.0], preset_metallic = 0.0, preset_roughness = 0.1,
            preset_specular = Some 0.5, preset_anisotropic = Some 0.0,
            preset_clearcoat = Some 1.0 \<rparr>),
       (''brushed_metal'',
          \<lparr> preset_color = [0.7, 0.7, 0.7], preset_metallic = 1.0, preset_roughness = 0.3,
            preset_specular = Some 0.5, preset_anisotropic = Some 0.8,
            preset_clearcoat = Some 0.0 \<rparr>) ]"

definition presets :: "string \<rightharpoonup> preset" where
  "presets = map_of preset_entries"

text \<open>
  The body of \<^verbatim>\<open>apply_preset\<close> (lines 279-290) over a given table of presets: eight
  assignments to the store in the order of the source, then the push, then the printed
  line. A name that is not in the table falls through the \<^verbatim>\<open>if\<close>.
\<close>

definition apply_preset_in :: "(string \<rightharpoonup> preset) \<Rightarrow> string \<Rightarrow> world \<Rightarrow> world" where
  "apply_preset_in table preset_name w0 =
     (case table preset_name of
        None \<Rightarrow> w0
      | Some p \<Rightarrow>
          (let w = w0\<lparr>store := (store w0)\<lparr>base_color := preset_color p\<rparr>\<rparr>;
               w = w\<lparr>store := (store w)\<lparr>metallic := preset_metallic p\<rparr>\<rparr>;
               w = w\<lparr>store := (store w)\<lparr>roughness := preset_roughness p\<rparr>\<rparr>;
               w = w\<lparr>store := (store w)\<lparr>specular := get (preset_specular p) 0.5\<rparr>\<rparr>;
               w = w\<lparr>store := (store w)\<lparr>anisotropic := get (preset_anisotropic p) 0.0\<rparr>\<rparr>;
               w = w\<lparr>store := (store w)\<lparr>anisotropic_rotation := 0.0\<rparr>\<rparr>;
               w = w\<lparr>store := (store w)\<lparr>clearcoat := get (preset_clearcoat p) 0.0\<rparr>\<rparr>;
               w = w\<lparr>store := (store w)\<lparr>clearcoat_roughness := 0.0\<rparr>\<rparr>;
               w = update_materials w
           in w\<lparr>stdout := stdout w @ [''Applied preset: '' @ preset_name]\<rparr>))"

definition apply_preset :: "string \<Rightarrow> world \<Rightarrow> world" where
  "apply_preset preset_name w = apply_preset_in presets preset_name w"

subsection \<open>Runs of user events\<close>

text \<open>
  What the user can do while the window is open: drag a slider to a value, or call
  \<^verbatim>\<open>apply_preset\<close> with a name. An exception ends the run.
\<close>

datatype event = Slide slider real | Preset string

fun step :: "event \<Rightarrow> world \<Rightarrow> error + world" where
  "step (Slide s v) w = callback s v w"
| "step (Preset name) w = Inr (apply_preset name w)"

fun run :: "event list \<Rightarrow> world \<Rightarrow> error + world" where
  "run [] w = Inr w"
| "run (e # es) w = (case step e w of Inl err \<Rightarrow> Inl err | Inr w' \<Rightarrow> run es w')"

text \<open>A slider only delivers values of its declared domain.\<close>

fun in_domain :: "event \<Rightarrow> bool" where
  "in_domain (Slide s v) = (min_val \<le> v \<and> v \<le> max_val)"
| "in_domain (Preset name) = True"

subsection \<open>Observations of the store\<close>

text \<open>The store field each slider title stands for; a colour channel is a field.\<close>

fun field_value :: "slider \<Rightarrow> parameter_store \<Rightarrow> real" where
  "field_value Slider_Red s = base_color s ! 0"
| "field_value Slider_Green s = base_color s ! 1"
| "field_value Slider_Blue s = base_color s ! 2"
| "field_value Slider_Metallic s = metallic s"
| "field_value Slider_Roughness s = roughness s"
| "field_value Slider_Specular_IOR s = specular s"
| "field_value Slider_Anisotropic s = anisotropic s"
| "field_value Slider_Aniso_Rotation s = anisotropic_rotation s"
| "field_value Slider_Clearcoat s = clearcoat s"
| "field_value Slider_Clearcoat_Rough s = clearcoat_roughness s"

definition unit_interval :: "real \<Rightarrow> bool" where
  "unit_interval v = (0 \<le> v \<and> v \<le> 1)"

definition in_range :: "parameter_store \<Rightarrow> bool" where
  "in_range s =
     (length (base_color s) = 3 \<and> list_all unit_interval (base_color s) \<and>
      unit_interval (metallic s) \<and> unit_interval (roughness s) \<and>
      unit_interval (specular s) \<and> unit_interval (anisotropic s) \<and>
      unit_interval (anisotropic_rotation s) \<and> unit_interval (clearcoat s) \<and>
      unit_interval (clearcoat_roughness s))"

text \<open>What one push leaves in an actor, as a function of the store.\<close>

definition pushed :: "parameter_store \<Rightarrow> actor_property" where
  "pushed s =
     \<lparr> Color = base_color s, Metallic = metallic s, Roughness = roughness s,
       BaseIOR = 1.0 + specular s * 0.8, Anisotropy = anisotropic s,
       AnisotropyRotation = anisotropic_rotation s, CoatStrength = clearcoat s,
       CoatRoughness = clearcoat_roughness s \<rparr>"

text \<open>The store a preset dictionary determines (defaults filled in, the two resets).\<close>

definition preset_store :: "preset \<Rightarrow> parameter_store" where
  "preset_store p =
     \<lparr> base_color = preset_color p, metallic = preset_metallic p,
       roughness = preset_roughness p,
       specular = (case preset_specular p of None \<Rightarrow> 0.5 | Some v \<Rightarrow> v),
       anisotropic = (case preset_anisotropic p of None \<Rightarrow> 0 | Some v \<Rightarrow> v),
       anisotropic_rotation = 0,
       clearcoat = (case preset_clearcoat p of None \<Rightarrow> 0 | Some v \<Rightarrow> v),
       clearcoat_roughness = 0 \<rparr>"

subsection \<open>The torus knot (lines 47-59)\<close>

type_synonym point = "real \<times> real \<times> real"

text \<open>
  \<^verbatim>\<open>np.linspace(start, stop, num)\<close> with its default \<^verbatim>\<open>endpoint=True\<close>, as numpy
  computes it: a negative \<open>num\<close> raises \<^verbatim>\<open>ValueError\<close>; otherwise the \<open>num\<close> values
  \<open>0, 1, ...\<close> are scaled by \<open>step = (stop - start) / (num - 1)\<close> (by the difference
  itself when \<open>num \<le> 1\<close>), shifted by \<open>start\<close>, and the last one is overwritten with
  \<open>stop\<close> when \<open>num > 1\<close>.
\<close>

definition linspace :: "real \<Rightarrow> real \<Rightarrow> int \<Rightarrow> error + real list" where
  "linspace start stop num =
     (if num < 0 then Inl ValueError
      else
        (let dv = num - 1;
             delta = stop - start;
             y = map real [0..<nat num];
             y = (if dv > 0
                  then (let step = delta / real_of_int dv
                        in if step = 0
                           then map (\<lambda>v. v / real_of_int dv * delta) y
                           else map (\<lambda>v. v * step) y)
                  else map (\<lambda>v. v * delta) y);
             y = map (\<lambda>v. v + start) y;
             y = (if num > 1 then y[nat num - 1 := stop] else y)
         in Inr y))"

text \<open>
  Lines 49-58: the sample parameters \<open>t\<close>, the four vectorised expressions, and
  \<^verbatim>\<open>np.column_stack\<close>, which makes one row per sample.
\<close>

definition torus_knot_points :: "int \<Rightarrow> int \<Rightarrow> int \<Rightarrow> error + point list" where
  "torus_knot_points p q resolution =
     (case linspace 0 (2 * pi) resolution of
        Inl e \<Rightarrow> Inl e
      | Inr t \<Rightarrow>
          (let r = map (\<lambda>t. cos (real_of_int q * t) + 2) t;
               x = map2 (\<lambda>r t. r * cos (real_of_int p * t)) r t;
               y = map2 (\<lambda>r t. r * sin (real_of_int p * t)) r t;
               z = map (\<lambda>t. - sin (real_of_int q * t)) t
           in Inr (zip x (zip y z))))"

text \<open>
  Line 59: \<^verbatim>\<open>pv.Spline(points, resolution * 2).tube(radius=0.3, n_sides=20)\<close>. The two
  toolkit operations are parameters; either may fail.
\<close>

definition create_torus_knot ::
  "(point list \<Rightarrow> int \<Rightarrow> error + 's) \<Rightarrow> ('s \<Rightarrow> real \<Rightarrow> int \<Rightarrow> error + 'm) \<Rightarrow>
   int \<Rightarrow> int \<Rightarrow> int \<Rightarrow> error + 'm" where
  "create_torus_knot Spline tube p q resolution =
     (case torus_knot_points p q resolution of
        Inl e \<Rightarrow> Inl e
      | Inr points \<Rightarrow>
          (case Spline points (resolution * 2) of
             Inl e \<Rightarrow> Inl e
           | Inr spline \<Rightarrow> tube spline 0.3 20))"

text \<open>
  A toolkit that accepts every input and hands back what it was given; it shows what the
  script itself passes on.
\<close>

definition Spline_accepting :: "point list \<Rightarrow> int \<Rightarrow> error + (point list \<times> int)" where
  "Spline_accepting points n_points = Inr (points, n_points)"

definition tube_accepting ::
  "(point list \<times> int) \<Rightarrow> real \<Rightarrow> int \<Rightarrow> error + ((point list \<times> int) \<times> real \<times> int)" where
  "tube_accepting spline radius n_sides = Inr (spline, radius, n_sides)"

text \<open>
  The curve of the specification: the point at parameter \<open>t\<close>, and the specification's
  half-open sampling \<open>t\<^sub>i = 2\<pi>i / resolution\<close>.
\<close>

definition spec_curve_point :: "int \<Rightarrow> int \<Rightarrow> real \<Rightarrow> point" where
  "spec_curve_point p q t =
     (let r = cos (real_of_int q * t) + 2
      in (r * cos (real_of_int p * t), r * sin (real_of_int p * t), - sin (real_of_int q * t)))"

definition spec_half_open_samples :: "int \<Rightarrow> int \<Rightarrow> int \<Rightarrow> point list" where
  "spec_half_open_samples p q resolution =
     map (\<lambda>i. spec_curve_point p q (2 * pi * real i / real_of_int resolution))
       [0..<nat resolution]"

text \<open>The sampling the code uses: the closed interval, \<open>resolution - 1\<close> steps.\<close>

definition closed_sample :: "int \<Rightarrow> nat \<Rightarrow> real" where
  "closed_sample resolution i =
     (if resolution \<le> 1 then 0 else 2 * pi * real i / real_of_int (resolution - 1))"

section \<open>Properties of the push operation\<close>

lemma update_materials_store [simp]: "store (update_materials w) = store w"
  by (simp add: update_materials_def render_def Let_def)

lemma update_materials_stdout [simp]: "stdout (update_materials w) = stdout w"
  by (simp add: update_materials_def render_def Let_def)

lemma update_materials_sphere [simp]: "sphere_actor (update_materials w) = pushed (store w)"
  by (simp add: update_materials_def render_def Let_def pushed_def SetColor_def
      SetMetallic_def SetRoughness_def SetBaseIOR_def SetAnisotropy_def
      SetAnisotropyRotation_def SetCoatStrength_def SetCoatRoughness_def)

lemma update_materials_torus [simp]: "torus_actor (update_materials w) = pushed (store w)"
  by (simp add: update_materials_def render_def Let_def pushed_def SetColor_def
      SetMetallic_def SetRoughness_def SetBaseIOR_def SetAnisotropy_def
      SetAnisotropyRotation_def SetCoatStrength_def SetCoatRoughness_def)

lemma update_materials_frames [simp]:
  "frames (update_materials w) = frames w @ [(pushed (store w), pushed (store w))]"
  by (simp add: update_materials_def render_def Let_def pushed_def SetColor_def
      SetMetallic_def SetRoughness_def SetBaseIOR_def SetAnisotropy_def
      SetAnisotropyRotation_def SetCoatStrength_def SetCoatRoughness_def)

lemma update_materials_eq:
  "update_materials w =
     w\<lparr>sphere_actor := pushed (store w), torus_actor := pushed (store w),
       frames := frames w @ [(pushed (store w), pushed (store w))]\<rparr>"
  by (simp add: update_materials_def render_def Let_def pushed_def SetColor_def
      SetMetallic_def SetRoughness_def SetBaseIOR_def SetAnisotropy_def
      SetAnisotropyRotation_def SetCoatStrength_def SetCoatRoughness_def)

lemma apply_preset_in_Some:
  assumes "table preset_name = Some p"
  shows "apply_preset_in table preset_name w =
           w\<lparr>store := preset_store p,
             sphere_actor := pushed (preset_store p),
             torus_actor := pushed (preset_store p),
             frames := frames w @ [(pushed (preset_store p), pushed (preset_store p))],
             stdout := stdout w @ [''Applied preset: '' @ preset_name]\<rparr>"
proof -
  have st: "(store w)\<lparr>base_color := preset_color p, metallic := preset_metallic p,
              roughness := preset_roughness p, specular := get (preset_specular p) 0.5,
              anisotropic := get (preset_anisotropic p) 0.0, anisotropic_rotation := 0.0,
              clearcoat := get (preset_clearcoat p) 0.0, clearcoat_roughness := 0.0\<rparr>
            = preset_store p"
    by (cases "store w") (simp add: preset_store_def get_def split: option.splits)
  show ?thesis
    using assms st by (simp add: apply_preset_in_def Let_def update_materials_eq)
qed

lemma set_channel_ok:
  assumes "k < length (base_color (store w))"
  shows "set_channel k v w =
           Inr (w\<lparr>store := (store w)\<lparr>base_color := (base_color (store w))[k := v]\<rparr>\<rparr>)"
  using assms by (simp add: set_channel_def)

lemma callback_store:
  assumes "length (base_color (store w)) = 3"
  shows "\<exists>w'. callback s v w = Inr w' \<and>
           store w' =
             (case s of
                Slider_Red \<Rightarrow> (store w)\<lparr>base_color := (base_color (store w))[0 := v]\<rparr>
              | Slider_Green \<Rightarrow> (store w)\<lparr>base_color := (base_color (store w))[1 := v]\<rparr>
              | Slider_Blue \<Rightarrow> (store w)\<lparr>base_color := (base_color (store w))[2 := v]\<rparr>
              | Slider_Metallic \<Rightarrow> (store w)\<lparr>metallic := v\<rparr>
              | Slider_Roughness \<Rightarrow> (store w)\<lparr>roughness := v\<rparr>
              | Slider_Specular_IOR \<Rightarrow> (store w)\<lparr>specular := v\<rparr>
              | Slider_Anisotropic \<Rightarrow> (store w)\<lparr>anisotropic := v\<rparr>
              | Slider_Aniso_Rotation \<Rightarrow> (store w)\<lparr>anisotropic_rotation := v\<rparr>
              | Slider_Clearcoat \<Rightarrow> (store w)\<lparr>clearcoat := v\<rparr>
              | Slider_Clearcoat_Rough \<Rightarrow> (store w)\<lparr>clearcoat_roughness := v\<rparr>) \<and>
           sphere_actor w' = pushed (store w') \<and> torus_actor w' = pushed (store w')"
  using assms
  by (cases s)
     (simp_all add: update_base_color_r_def update_base_color_g_def update_base_color_b_def
        set_channel_ok update_metallic_def update_roughness_def update_specular_def
        update_anisotropic_def update_anisotropic_rotation_def update_clearcoat_def
        update_clearcoat_roughness_def)

lemma presets_dom:
  "dom presets = {''gold'', ''chrome'', ''plastic'', ''rubber'', ''wood'',
                  ''car_paint'', ''brushed_metal''}"
  by (simp add: presets_def preset_entries_def dom_map_of_conv_image_fst)

lemma preset_entries_in_range:
  "list_all (\<lambda>(n, p). in_range (preset_store p)) preset_entries"
  by (simp add: preset_entries_def in_range_def preset_store_def unit_interval_def)

lemma presets_in_range:
  assumes "presets preset_name = Some p"
  shows "in_range (preset_store p)"
proof -
  from assms have "(preset_name, p) \<in> set preset_entries"
    unfolding presets_def by (rule map_of_SomeD)
  with preset_entries_in_range show ?thesis
    by (auto simp: list_all_iff)
qed

lemma in_range_params: "in_range params"
  by (simp add: in_range_def params_def unit_interval_def)

lemma list_update_unit:
  assumes "list_all unit_interval xs" and "unit_interval v"
  shows "list_all unit_interval (xs[k := v])"
  using assms by (induction xs arbitrary: k) (auto split: nat.splits)

lemma callback_in_range:
  assumes "in_range (store w)" and "min_val \<le> v" and "v \<le> max_val"
  shows "\<exists>w'. callback s v w = Inr w' \<and> in_range (store w')"
proof -
  from assms(1) have len: "length (base_color (store w)) = 3"
    by (simp add: in_range_def)
  from assms(2,3) have v: "unit_interval v"
    by (simp add: unit_interval_def min_val_def max_val_def)
  from callback_store [OF len, of s v] obtain w' where
    cb: "callback s v w = Inr w'" and
    st: "store w' =
             (case s of
                Slider_Red \<Rightarrow> (store w)\<lparr>base_color := (base_color (store w))[0 := v]\<rparr>
              | Slider_Green \<Rightarrow> (store w)\<lparr>base_color := (base_color (store w))[1 := v]\<rparr>
              | Slider_Blue \<Rightarrow> (store w)\<lparr>base_color := (base_color (store w))[2 := v]\<rparr>
              | Slider_Metallic \<Rightarrow> (store w)\<lparr>metallic := v\<rparr>
              | Slider_Roughness \<Rightarrow> (store w)\<lparr>roughness := v\<rparr>
              | Slider_Specular_IOR \<Rightarrow> (store w)\<lparr>specular := v\<rparr>
              | Slider_Anisotropic \<Rightarrow> (store w)\<lparr>anisotropic := v\<rparr>
              | Slider_Aniso_Rotation \<Rightarrow> (store w)\<lparr>anisotropic_rotation := v\<rparr>
              | Slider_Clearcoat \<Rightarrow> (store w)\<lparr>clearcoat := v\<rparr>
              | Slider_Clearcoat_Rough \<Rightarrow> (store w)\<lparr>clearcoat_roughness := v\<rparr>)"
    by blast
  have "in_range (store w')"
    using assms(1) v st by (cases s) (simp_all add: in_range_def list_update_unit)
  with cb show ?thesis by blast
qed

lemma apply_preset_in_range:
  assumes "in_range (store w)"
  shows "in_range (store (apply_preset preset_name w))"
proof (cases "presets preset_name")
  case None
  with assms show ?thesis
    by (simp add: apply_preset_def apply_preset_in_def)
next
  case (Some p)
  then show ?thesis
    by (simp add: apply_preset_def apply_preset_in_Some presets_in_range)
qed

lemma step_in_range:
  assumes "in_range (store w)" and "in_domain e"
  shows "\<exists>w'. step e w = Inr w' \<and> in_range (store w')"
  using assms by (cases e) (simp_all add: callback_in_range apply_preset_in_range)

lemma run_in_range:
  assumes "in_range (store w)" and "list_all in_domain es"
  shows "\<exists>w'. run es w = Inr w' \<and> in_range (store w')"
  using assms
proof (induction es arbitrary: w)
  case Nil
  then show ?case by simp
next
  case (Cons e es)
  from Cons.prems obtain w1 where s1: "step e w = Inr w1" and r1: "in_range (store w1)"
    using step_in_range [of w e] by auto
  from Cons.IH [OF r1] Cons.prems(2) obtain w' where
    "run es w1 = Inr w'" and "in_range (store w')"
    by auto
  with s1 show ?case by simp
qed

lemma run_total:
  assumes "in_range (store w)" and "list_all in_domain es"
  shows "\<exists>w'. run es w = Inr w'"
  using run_in_range [OF assms] by blast

lemma callback_agree:
  assumes "callback s v w = Inr w'"
  shows "sphere_actor w' = torus_actor w'"
  using assms
  by (cases s)
     (auto simp: update_base_color_r_def update_base_color_g_def update_base_color_b_def
        set_channel_def update_metallic_def update_roughness_def update_specular_def
        update_anisotropic_def update_anisotropic_rotation_def update_clearcoat_def
        update_clearcoat_roughness_def split: if_splits)

lemma apply_preset_agree:
  assumes "sphere_actor w = torus_actor w"
  shows "sphere_actor (apply_preset n w) = torus_actor (apply_preset n w)"
  using assms
  by (cases "presets n") (simp_all add: apply_preset_def apply_preset_in_def apply_preset_in_Some)

lemma step_agree:
  assumes "sphere_actor w = torus_actor w" and "step e w = Inr w'"
  shows "sphere_actor w' = torus_actor w'"
  using assms by (cases e) (auto simp: callback_agree apply_preset_agree)

lemma run_agree:
  assumes "sphere_actor w = torus_actor w" and "run es w = Inr w'"
  shows "sphere_actor w' = torus_actor w'"
  using assms
proof (induction es arbitrary: w)
  case Nil
  then show ?case by simp
next
  case (Cons e es)
  from Cons.prems(2) obtain w1 where s1: "step e w = Inr w1" and r: "run es w1 = Inr w'"
    by (auto split: sum.splits)
  from step_agree [OF Cons.prems(1) s1] have "sphere_actor w1 = torus_actor w1" .
  from Cons.IH [OF this r] show ?case .
qed

section \<open>Properties of the sampling\<close>

lemma linspace_nth:
  assumes "0 \<le> num"
  shows "\<exists>ts. linspace a b num = Inr ts \<and> length ts = nat num \<and>
           (\<forall>i < nat num. ts ! i =
              (if num \<le> 1 then a else a + real i * (b - a) / real_of_int (num - 1)))"
proof (cases "num \<le> 1")
  case True
  then have "i = 0" if "i < nat num" for i
    using that by simp
  with assms True show ?thesis
    by (simp add: linspace_def Let_def)
next
  case False
  then have dv: "0 < num - 1" and n: "1 < num"
    by simp_all
  define d where "d = real_of_int (num - 1)"
  from dv have dpos: "0 < d"
    by (simp add: d_def)
  have last: "real (nat num - 1) = d"
    using n by (simp add: d_def of_nat_diff)
  define ys where "ys = map (\<lambda>v. v + a)
     (if (b - a) / d = 0 then map (\<lambda>v. v / d * (b - a)) (map real [0..<nat num])
      else map (\<lambda>v. v * ((b - a) / d)) (map real [0..<nat num]))"
  have len: "length ys = nat num"
    by (simp add: ys_def)
  have inner: "ys ! i = a + real i * (b - a) / d" if "i < nat num" for i
    using that by (simp add: ys_def)
  have eq: "linspace a b num = Inr (ys[nat num - 1 := b])"
    using assms n dv by (simp add: linspace_def Let_def ys_def d_def)
  have "(ys[nat num - 1 := b]) ! i = a + real i * (b - a) / d" if "i < nat num" for i
  proof (cases "i = nat num - 1")
    case True
    from True last have "real i = d"
      by simp
    with dpos have "a + real i * (b - a) / d = b"
      by simp
    with that True len show ?thesis
      by simp
  next
    case False
    with that len inner show ?thesis
      by simp
  qed
  with eq len False show ?thesis
    by (simp add: d_def)
qed

lemma linspace_negative:
  assumes "num < 0"
  shows "linspace a b num = Inl ValueError"
  using assms by (simp add: linspace_def)

lemma torus_knot_points_nth:
  assumes "0 \<le> resolution"
  shows "\<exists>pts. torus_knot_points p q resolution = Inr pts \<and> length pts = nat resolution \<and>
           (\<forall>i < nat resolution.
              pts ! i = spec_curve_point p q (closed_sample resolution i))"
proof -
  from linspace_nth [OF assms, of 0 "2 * pi"] obtain ts where
    lin: "linspace 0 (2 * pi) resolution = Inr ts" and
    len: "length ts = nat resolution" and
    nth: "\<forall>i < nat resolution. ts ! i =
            (if resolution \<le> 1 then 0
             else 0 + real i * (2 * pi - 0) / real_of_int (resolution - 1))"
    by blast
  have t: "ts ! i = closed_sample resolution i" if "i < nat resolution" for i
    using nth that by (simp add: closed_sample_def mult.commute)
  define pts where "pts =
     zip (map2 (\<lambda>r t. r * cos (real_of_int p * t))
            (map (\<lambda>t. cos (real_of_int q * t) + 2) ts) ts)
       (zip (map2 (\<lambda>r t. r * sin (real_of_int p * t))
               (map (\<lambda>t. cos (real_of_int q * t) + 2) ts) ts)
          (map (\<lambda>t. - sin (real_of_int q * t)) ts))"
  have "torus_knot_points p q resolution = Inr pts"
    by (simp add: torus_knot_points_def lin Let_def pts_def)
  moreover have "length pts = nat resolution"
    by (simp add: pts_def len)
  moreover have "pts ! i = spec_curve_point p q (closed_sample resolution i)"
    if "i < nat resolution" for i
    using that len t [OF that] by (simp add: pts_def spec_curve_point_def Let_def)
  ultimately show ?thesis
    by blast
qed

lemma torus_knot_points_negative:
  assumes "resolution < 0"
  shows "torus_knot_points p q resolution = Inl ValueError"
  using assms by (simp add: torus_knot_points_def linspace_negative)

lemma spec_curve_point_0: "spec_curve_point p q 0 = (3, 0, 0)"
  by (simp add: spec_curve_point_def)

lemma spec_curve_point_2pi: "spec_curve_point p q (2 * pi) = (3, 0, 0)"
proof -
  have "cos (real_of_int q * (2 * pi)) = 1" and "sin (real_of_int q * (2 * pi)) = 0"
   and "cos (real_of_int p * (2 * pi)) = 1" and "sin (real_of_int p * (2 * pi)) = 0"
    using cos_int_2pin [of q] sin_int_2pin [of q] cos_int_2pin [of p] sin_int_2pin [of p]
    by (simp_all add: mult.commute)
  then show ?thesis
    by (simp add: spec_curve_point_def)
qed

lemma closed_sample_first: "closed_sample resolution 0 = 0"
  by (simp add: closed_sample_def)

lemma closed_sample_last:
  assumes "2 \<le> resolution"
  shows "closed_sample resolution (nat resolution - 1) = 2 * pi"
proof -
  from assms have "real (nat resolution - 1) = real_of_int (resolution - 1)"
    by simp
  moreover from assms have "real_of_int (resolution - 1) \<noteq> 0"
    by simp
  ultimately show ?thesis
    using assms by (simp add: closed_sample_def)
qed

lemma torus_knot_points_two: "torus_knot_points p q 2 = Inr [(3, 0, 0), (3, 0, 0)]"
proof -
  from torus_knot_points_nth [of 2 p q] obtain pts where
    eq: "torus_knot_points p q 2 = Inr pts" and
    len: "length pts = 2" and
    nth: "\<forall>i < nat 2. pts ! i = spec_curve_point p q (closed_sample 2 i)"
    by auto
  from nth have "pts ! 0 = spec_curve_point p q (closed_sample 2 0)"
    by simp
  then have p0: "pts ! 0 = (3, 0, 0)"
    by (simp only: closed_sample_first spec_curve_point_0)
  from nth have "pts ! 1 = spec_curve_point p q (closed_sample 2 (nat 2 - 1))"
    by simp
  also have "closed_sample 2 (nat 2 - 1) = 2 * pi"
    by (rule closed_sample_last) simp
  finally have p1: "pts ! 1 = (3, 0, 0)"
    by (simp only: spec_curve_point_2pi)
  from len obtain a b where "pts = [a, b]"
    by (auto simp: length_Suc_conv numeral_2_eq_2)
  with p0 p1 eq show ?thesis
    by simp
qed

lemma sin_off_grid: "sin (3 * (2 * pi * 99 / 100)) \<noteq> 0"
proof
  assume "sin (3 * (2 * pi * 99 / 100)) = 0"
  then obtain i :: int where i: "3 * (2 * pi * 99 / 100) = real_of_int i * pi"
    by (auto simp: sin_zero_iff_int2)
  then have "(real_of_int i - 594 / 100) * pi = 0"
    by (simp add: algebra_simps)
  then have "real_of_int i = 594 / 100"
    by simp
  then have "real_of_int (100 * i) = real_of_int 594"
    by simp
  then have "100 * i = 594"
    by (simp only: of_int_eq_iff)
  then show False
    by presburger
qed

section \<open>The derived index of refraction\<close>

text \<open>
  Claim C2. The index of refraction that a push writes into both actors is the linear
  function \<open>1.0 + specular * 0.8\<close> of the store's specular value; for a specular value in
  \<open>[0, 1]\<close> it lies in \<open>[1.0, 1.8]\<close>, and the specular values \<open>0.0\<close>, \<open>0.5\<close>, \<open>1.0\<close> give
  \<open>1.0\<close>, \<open>1.4\<close>, \<open>1.8\<close>.
\<close>

theorem ior_linear_in_specular:
  "BaseIOR (sphere_actor (update_materials w)) = 1.0 + specular (store w) * 0.8 \<and>
   BaseIOR (torus_actor (update_materials w)) = 1.0 + specular (store w) * 0.8 \<and>
   (0 \<le> specular (store w) \<and> specular (store w) \<le> 1 \<longrightarrow>
      1.0 \<le> BaseIOR (sphere_actor (update_materials w)) \<and>
      BaseIOR (sphere_actor (update_materials w)) \<le> 1.8) \<and>
   (specular (store w) = 0.0 \<longrightarrow> BaseIOR (sphere_actor (update_materials w)) = 1.0) \<and>
   (specular (store w) = 0.5 \<longrightarrow> BaseIOR (sphere_actor (update_materials w)) = 1.4) \<and>
   (specular (store w) = 1.0 \<longrightarrow> BaseIOR (sphere_actor (update_materials w)) = 1.8)"
  by (simp add: pushed_def)

theorem ior_linear_in_specular_witness:
  "specular (store world_init) = 0.5 \<and> 0 \<le> specular (store world_init) \<and>
   specular (store world_init) \<le> 1 \<and>
   BaseIOR (sphere_actor (update_materials world_init)) = 1.4 \<and>
   BaseIOR (torus_actor (update_materials world_init)) = 1.4"
  using ior_linear_in_specular [of world_init]
  by (simp add: world_init_def params_def)

section \<open>Presets\<close>

text \<open>
  Claim C4. A preset name outside the seven defined ones leaves the whole world as it was:
  no field of the store changes, neither actor is written, no frame is drawn, nothing is
  printed and no error is raised.
\<close>

theorem unknown_preset_is_noop:
  assumes "preset_name \<notin> {''gold'', ''chrome'', ''plastic'', ''rubber'', ''wood'',
                            ''car_paint'', ''brushed_metal''}"
  shows "apply_preset preset_name w = w"
proof -
  from assms have "presets preset_name = None"
    by (simp add: presets_def preset_entries_def)
  then show ?thesis
    by (simp add: apply_preset_def apply_preset_in_def)
qed

theorem unknown_preset_is_noop_witness:
  "''silver'' \<notin> {''gold'', ''chrome'', ''plastic'', ''rubber'', ''wood'',
                    ''car_paint'', ''brushed_metal''} \<and>
   apply_preset ''silver'' world_init = world_init"
  using unknown_preset_is_noop [of "''silver''" world_init] by simp

text \<open>
  Claim C6. The preset \<open>chrome\<close> sets the base colour to \<open>[0.88, 0.88, 0.88]\<close>, metallic to
  \<open>1.0\<close>, roughness to \<open>0.05\<close>, clearcoat to \<open>0.0\<close> and the anisotropic rotation to \<open>0.0\<close>,
  whatever the store held before.
\<close>

theorem chrome_preset_values:
  "base_color (store (apply_preset ''chrome'' w)) = [0.88, 0.88, 0.88] \<and>
   metallic (store (apply_preset ''chrome'' w)) = 1.0 \<and>
   roughness (store (apply_preset ''chrome'' w)) = 0.05 \<and>
   clearcoat (store (apply_preset ''chrome'' w)) = 0.0 \<and>
   anisotropic_rotation (store (apply_preset ''chrome'' w)) = 0.0"
proof -
  have "presets ''chrome'' =
          Some \<lparr> preset_color = [0.88, 0.88, 0.88], preset_metallic = 1.0,
                 preset_roughness = 0.05, preset_specular = Some 0.5,
                 preset_anisotropic = Some 0.0, preset_clearcoat = Some 0.0 \<rparr>"
    by (simp add: presets_def preset_entries_def)
  then show ?thesis
    by (simp add: apply_preset_def apply_preset_in_Some preset_store_def)
qed

theorem chrome_preset_values_witness:
  "base_color (store (apply_preset ''chrome'' world_init)) = [0.88, 0.88, 0.88] \<and>
   metallic (store (apply_preset ''chrome'' world_init)) = 1.0 \<and>
   roughness (store (apply_preset ''chrome'' world_init)) = 0.05 \<and>
   clearcoat (store (apply_preset ''chrome'' world_init)) = 0.0 \<and>
   anisotropic_rotation (store (apply_preset ''chrome'' world_init)) = 0.0"
  using chrome_preset_values [of world_init] by simp

section \<open>Sliders\<close>

text \<open>
  Claim C5. In a store whose base colour has its three channels, the callback of every
  slider, called with a value \<open>v\<close> of \<open>[0, 1]\<close>, returns normally, leaves \<open>v\<close> in the field
  the slider stands for and leaves the field of every other slider as it was; the base
  colour keeps three channels.
\<close>

theorem slider_updates_exactly_its_field:
  assumes "length (base_color (store w)) = 3" and "0 \<le> v" and "v \<le> 1"
  shows "\<exists>w'. callback s v w = Inr w' \<and>
           field_value s (store w') = v \<and>
           (\<forall>s'. s' \<noteq> s \<longrightarrow> field_value s' (store w') = field_value s' (store w)) \<and>
           length (base_color (store w')) = 3"
proof -
  from callback_store [OF assms(1), of s v] obtain w' where
    cb: "callback s v w = Inr w'" and
    st: "store w' =
             (case s of
                Slider_Red \<Rightarrow> (store w)\<lparr>base_color := (base_color (store w))[0 := v]\<rparr>
              | Slider_Green \<Rightarrow> (store w)\<lparr>base_color := (base_color (store w))[1 := v]\<rparr>
              | Slider_Blue \<Rightarrow> (store w)\<lparr>base_color := (base_color (store w))[2 := v]\<rparr>
              | Slider_Metallic \<Rightarrow> (store w)\<lparr>metallic := v\<rparr>
              | Slider_Roughness \<Rightarrow> (store w)\<lparr>roughness := v\<rparr>
              | Slider_Specular_IOR \<Rightarrow> (store w)\<lparr>specular := v\<rparr>
              | Slider_Anisotropic \<Rightarrow> (store w)\<lparr>anisotropic := v\<rparr>
              | Slider_Aniso_Rotation \<Rightarrow> (store w)\<lparr>anisotropic_rotation := v\<rparr>
              | Slider_Clearcoat \<Rightarrow> (store w)\<lparr>clearcoat := v\<rparr>
              | Slider_Clearcoat_Rough \<Rightarrow> (store w)\<lparr>clearcoat_roughness := v\<rparr>)"
    by blast
  have own: "field_value s (store w') = v"
    using assms(1) st by (cases s) simp_all
  have len: "length (base_color (store w')) = 3"
    using assms(1) st by (cases s) simp_all
  have others: "field_value s' (store w') = field_value s' (store w)" if "s' \<noteq> s" for s'
    using that assms(1) st by (cases s; cases s') simp_all
  from cb own others len show ?thesis by blast
qed

theorem slider_updates_exactly_its_field_witness:
  "length (base_color (store world_init)) = 3 \<and> (0::real) \<le> 0.25 \<and> (0.25::real) \<le> 1 \<and>
   (\<exists>w'. callback Slider_Green 0.25 world_init = Inr w' \<and>
      field_value Slider_Green (store w') = 0.25 \<and>
      field_value Slider_Red (store w') = 0.5 \<and>
      field_value Slider_Blue (store w') = 0.5 \<and>
      field_value Slider_Metallic (store w') = 0)"
proof -
  have len: "length (base_color (store world_init)) = 3"
    by (simp add: world_init_def params_def)
  from slider_updates_exactly_its_field [OF len, of "0.25" Slider_Green]
  obtain w' where
    cb: "callback Slider_Green 0.25 world_init = Inr w'" and
    own: "field_value Slider_Green (store w') = 0.25" and
    others: "\<forall>s'. s' \<noteq> Slider_Green \<longrightarrow>
               field_value s' (store w') = field_value s' (store world_init)"
    by auto
  have "field_value Slider_Red (store w') = field_value Slider_Red (store world_init)"
    and "field_value Slider_Blue (store w') = field_value Slider_Blue (store world_init)"
    and "field_value Slider_Metallic (store w') = field_value Slider_Metallic (store world_init)"
    using others [rule_format, of Slider_Red] others [rule_format, of Slider_Blue]
      others [rule_format, of Slider_Metallic]
    by simp_all
  then have "field_value Slider_Red (store w') = 0.5 \<and>
             field_value Slider_Blue (store w') = 0.5 \<and>
             field_value Slider_Metallic (store w') = 0"
    by (simp add: world_init_def params_def)
  then show ?thesis using len cb own by simp
qed

section \<open>The push\<close>

text \<open>
  Claim C7. In every state, \<open>update_materials\<close> leaves in both actors the eight properties
  computed from the store as it is at the call (colour, metallic, roughness, the derived
  index of refraction, anisotropy, its rotation, coat strength, coat roughness), then draws
  exactly one frame, which shows those values on both actors; the store and the printed
  output are not touched.
\<close>

theorem push_sets_all_properties_then_renders_once:
  "sphere_actor (update_materials w) = pushed (store w) \<and>
   torus_actor (update_materials w) = pushed (store w) \<and>
   frames (update_materials w) = frames w @ [(pushed (store w), pushed (store w))] \<and>
   store (update_materials w) = store w \<and>
   stdout (update_materials w) = stdout w"
  by simp

theorem push_sets_all_properties_then_renders_once_witness:
  "sphere_actor (update_materials world_init) =
     \<lparr> Color = [0.5, 0.5, 0.5], Metallic = 0, Roughness = 0.5, BaseIOR = 1.4,
       Anisotropy = 0, AnisotropyRotation = 0, CoatStrength = 0, CoatRoughness = 0 \<rparr> \<and>
   torus_actor (update_materials world_init) =
     \<lparr> Color = [0.5, 0.5, 0.5], Metallic = 0, Roughness = 0.5, BaseIOR = 1.4,
       Anisotropy = 0, AnisotropyRotation = 0, CoatStrength = 0, CoatRoughness = 0 \<rparr> \<and>
   length (frames (update_materials world_init)) = 1"
  using push_sets_all_properties_then_renders_once [of world_init]
  by (simp add: world_init_def params_def pushed_def)

text \<open>
  Claim C10. After every push the sphere actor and the torus actor hold the same values
  for all eight properties. They also agree when the script starts, and in every state
  that a run of slider and preset events reaches from there: the two actors never
  diverge.
\<close>

theorem actors_never_diverge:
  "sphere_actor (update_materials w) = torus_actor (update_materials w) \<and>
   sphere_actor world_init = torus_actor world_init \<and>
   (run es world_init = Inr w' \<longrightarrow> sphere_actor w' = torus_actor w')"
proof (intro conjI impI)
  show "sphere_actor (update_materials w) = torus_actor (update_materials w)"
    by simp
  show init: "sphere_actor world_init = torus_actor world_init"
    by (simp add: world_init_def)
  show "sphere_actor w' = torus_actor w'" if "run es world_init = Inr w'"
    using init that by (rule run_agree)
qed

theorem actors_never_diverge_witness:
  "\<exists>w'. run [Slide Slider_Blue 0.9, Preset ''gold'', Preset ''silver''] world_init = Inr w' \<and>
         sphere_actor w' = torus_actor w' \<and>
         sphere_actor (update_materials w') = torus_actor (update_materials w')"
proof -
  have "in_range (store world_init)"
    by (simp add: world_init_def in_range_def params_def unit_interval_def)
  moreover have "list_all in_domain [Slide Slider_Blue 0.9, Preset ''gold'', Preset ''silver'']"
    by (simp add: min_val_def max_val_def)
  ultimately obtain w' where
    r: "run [Slide Slider_Blue 0.9, Preset ''gold'', Preset ''silver''] world_init = Inr w'"
    using run_total by blast
  from actors_never_diverge
         [of w' "[Slide Slider_Blue 0.9, Preset ''gold'', Preset ''silver'']" w'] r
  show ?thesis by blast
qed

section \<open>Presets overwrite the whole store\<close>

text \<open>
  Claim C8. Applying one of the seven known presets replaces the whole store by the store
  the preset dictionary determines: colour, metallic and roughness from the dictionary,
  specular, anisotropic and clearcoat from the dictionary or else the defaults \<open>0.5\<close>,
  \<open>0\<close>, \<open>0\<close>, anisotropic rotation and clearcoat roughness reset to \<open>0\<close>. Nothing of the
  old store survives, and the only frame drawn shows the new values on both actors, so no
  partly updated state is seen. The same holds for the body of \<open>apply_preset\<close> over any
  table that has the name, also one whose dictionary leaves the three optional keys out.
\<close>

theorem preset_overwrites_full_store:
  "(preset_name \<in> {''gold'', ''chrome'', ''plastic'', ''rubber'', ''wood'',
                     ''car_paint'', ''brushed_metal''} \<longrightarrow>
      (\<exists>p. presets preset_name = Some p \<and>
           store (apply_preset preset_name w) = preset_store p \<and>
           sphere_actor (apply_preset preset_name w) = pushed (preset_store p) \<and>
           torus_actor (apply_preset preset_name w) = pushed (preset_store p) \<and>
           frames (apply_preset preset_name w) =
             frames w @ [(pushed (preset_store p), pushed (preset_store p))])) \<and>
   (table preset_name = Some p' \<longrightarrow>
      store (apply_preset_in table preset_name w) = preset_store p' \<and>
      sphere_actor (apply_preset_in table preset_name w) = pushed (preset_store p') \<and>
      torus_actor (apply_preset_in table preset_name w) = pushed (preset_store p') \<and>
      frames (apply_preset_in table preset_name w) =
        frames w @ [(pushed (preset_store p'), pushed (preset_store p'))])"
proof (intro conjI impI)
  assume "preset_name \<in> {''gold'', ''chrome'', ''plastic'', ''rubber'', ''wood'',
                           ''car_paint'', ''brushed_metal''}"
  then have "preset_name \<in> dom presets"
    by (simp only: presets_dom)
  then obtain p where "presets preset_name = Some p"
    by blast
  then show "\<exists>p. presets preset_name = Some p \<and>
           store (apply_preset preset_name w) = preset_store p \<and>
           sphere_actor (apply_preset preset_name w) = pushed (preset_store p) \<and>
           torus_actor (apply_preset preset_name w) = pushed (preset_store p) \<and>
           frames (apply_preset preset_name w) =
             frames w @ [(pushed (preset_store p), pushed (preset_store p))]"
    by (simp add: apply_preset_def apply_preset_in_Some)
qed (simp_all add: apply_preset_in_Some)

theorem preset_overwrites_full_store_witness:
  "store (apply_preset ''brushed_metal'' world_init) =
     \<lparr> base_color = [0.7, 0.7, 0.7], metallic = 1, roughness = 0.3, specular = 0.5,
       anisotropic = 0.8, anisotropic_rotation = 0, clearcoat = 0,
       clearcoat_roughness = 0 \<rparr> \<and>
   length (frames (apply_preset ''brushed_metal'' world_init)) = 1 \<and>
   store (apply_preset_in
            [''matte'' \<mapsto> \<lparr> preset_color = [0.2, 0.2, 0.2], preset_metallic = 0,
                               preset_roughness = 1, preset_specular = None,
                               preset_anisotropic = None, preset_clearcoat = None \<rparr>]
            ''matte'' (update_anisotropic_rotation 0.6 world_init)) =
     \<lparr> base_color = [0.2, 0.2, 0.2], metallic = 0, roughness = 1, specular = 0.5,
       anisotropic = 0, anisotropic_rotation = 0, clearcoat = 0,
       clearcoat_roughness = 0 \<rparr>"
proof -
  have k: "presets ''brushed_metal'' =
          Some \<lparr> preset_color = [0.7, 0.7, 0.7], preset_metallic = 1.0,
                 preset_roughness = 0.3, preset_specular = Some 0.5,
                 preset_anisotropic = Some 0.8, preset_clearcoat = Some 0.0 \<rparr>"
    by (simp add: presets_def preset_entries_def)
  from preset_overwrites_full_store [of "''brushed_metal''" world_init presets
         "\<lparr> preset_color = [0.7, 0.7, 0.7], preset_metallic = 1.0,
            preset_roughness = 0.3, preset_specular = Some 0.5,
            preset_anisotropic = Some 0.8, preset_clearcoat = Some 0.0 \<rparr>"] k
  have a: "store (apply_preset ''brushed_metal'' world_init) =
     \<lparr> base_color = [0.7, 0.7, 0.7], metallic = 1, roughness = 0.3, specular = 0.5,
       anisotropic = 0.8, anisotropic_rotation = 0, clearcoat = 0,
       clearcoat_roughness = 0 \<rparr> \<and>
     length (frames (apply_preset ''brushed_metal'' world_init)) = 1"
    by (simp add: preset_store_def world_init_def)
  from preset_overwrites_full_store [of "''matte''" "update_anisotropic_rotation 0.6 world_init"
         "[''matte'' \<mapsto> \<lparr> preset_color = [0.2, 0.2, 0.2], preset_metallic = 0,
                               preset_roughness = 1, preset_specular = None,
                               preset_anisotropic = None, preset_clearcoat = None \<rparr>]"
         "\<lparr> preset_color = [0.2, 0.2, 0.2], preset_metallic = 0,
                               preset_roughness = 1, preset_specular = None,
                               preset_anisotropic = None, preset_clearcoat = None \<rparr>"]
  have b: "store (apply_preset_in
            [''matte'' \<mapsto> \<lparr> preset_color = [0.2, 0.2, 0.2], preset_metallic = 0,
                               preset_roughness = 1, preset_specular = None,
                               preset_anisotropic = None, preset_clearcoat = None \<rparr>]
            ''matte'' (update_anisotropic_rotation 0.6 world_init)) =
     \<lparr> base_color = [0.2, 0.2, 0.2], metallic = 0, roughness = 1, specular = 0.5,
       anisotropic = 0, anisotropic_rotation = 0, clearcoat = 0,
       clearcoat_roughness = 0 \<rparr>"
    by (simp add: preset_store_def)
  from a b show ?thesis by blast
qed

section \<open>The store stays in range\<close>

text \<open>
  Claim C9. The store is created with base colour \<open>[0.5, 0.5, 0.5]\<close>, metallic \<open>0\<close>,
  roughness \<open>0.5\<close>, specular \<open>0.5\<close> and \<open>0\<close> in the four other fields, which is in range.
  From a store in range (three colour channels, every channel and every scalar in
  \<open>[0, 1]\<close>), every run of slider callbacks with values of the slider domain \<open>[0, 1]\<close> and
  of preset applications returns normally and ends with a store in range.
\<close>

theorem store_defaults_and_range_invariant:
  "base_color params = [0.5, 0.5, 0.5] \<and> metallic params = 0 \<and> roughness params = 0.5 \<and>
   specular params = 0.5 \<and> anisotropic params = 0 \<and> anisotropic_rotation params = 0 \<and>
   clearcoat params = 0 \<and> clearcoat_roughness params = 0 \<and>
   store world_init = params \<and> in_range params \<and>
   (in_range (store w) \<longrightarrow> list_all in_domain es \<longrightarrow>
      (\<exists>w'. run es w = Inr w' \<and> in_range (store w')))"
proof -
  have "base_color params = [0.5, 0.5, 0.5] \<and> metallic params = 0 \<and>
        roughness params = 0.5 \<and> specular params = 0.5 \<and> anisotropic params = 0 \<and>
        anisotropic_rotation params = 0 \<and> clearcoat params = 0 \<and>
        clearcoat_roughness params = 0"
    by (simp add: params_def)
  moreover have "store world_init = params"
    by (simp add: world_init_def)
  ultimately show ?thesis
    using in_range_params run_in_range by blast
qed

theorem store_defaults_and_range_invariant_witness:
  "in_range (store world_init) \<and>
   list_all in_domain [Slide Slider_Red 1, Preset ''chrome'', Slide Slider_Clearcoat_Rough 0.25] \<and>
   (\<exists>w'. run [Slide Slider_Red 1, Preset ''chrome'', Slide Slider_Clearcoat_Rough 0.25]
            world_init = Inr w' \<and> in_range (store w'))"
proof -
  have a: "in_range (store world_init)"
    by (simp add: world_init_def in_range_def params_def unit_interval_def)
  have b: "list_all in_domain
             [Slide Slider_Red 1, Preset ''chrome'', Slide Slider_Clearcoat_Rough 0.25]"
    by (simp add: min_val_def max_val_def)
  from store_defaults_and_range_invariant
         [of world_init "[Slide Slider_Red 1, Preset ''chrome'', Slide Slider_Clearcoat_Rough 0.25]"]
       a b
  show ?thesis by blast
qed

section \<open>The torus knot\<close>

text \<open>
  Claim C1, as the code has it. For every positive resolution the builder samples the
  curve \<open>r(t) = cos(q t) + 2\<close>, \<open>x = r cos(p t)\<close>, \<open>y = r sin(p t)\<close>, \<open>z = - sin(q t)\<close> at
  \<open>resolution\<close> values of \<open>t\<close> spaced evenly over the closed interval from \<open>0\<close> to \<open>2\<pi>\<close>:
  the sample of index \<open>i\<close> is at \<open>2\<pi>i / (resolution - 1)\<close> (at \<open>0\<close> when there is one
  sample). From two samples on, the end \<open>2\<pi>\<close> of the interval is itself sampled: the last
  point is the point of the curve at \<open>t = 2\<pi>\<close>.
\<close>

theorem torus_knot_samples_closed_interval:
  assumes "0 < resolution"
  shows "\<exists>pts. torus_knot_points p q resolution = Inr pts \<and>
           length pts = nat resolution \<and>
           (\<forall>i < nat resolution.
              pts ! i = spec_curve_point p q (closed_sample resolution i)) \<and>
           (2 \<le> resolution \<longrightarrow>
              closed_sample resolution (nat resolution - 1) = 2 * pi \<and>
              pts ! (nat resolution - 1) = spec_curve_point p q (2 * pi))"
proof -
  from assms have "0 \<le> resolution"
    by simp
  from torus_knot_points_nth [OF this, of p q] obtain pts where
    eq: "torus_knot_points p q resolution = Inr pts" and
    len: "length pts = nat resolution" and
    nth: "\<forall>i < nat resolution. pts ! i = spec_curve_point p q (closed_sample resolution i)"
    by blast
  have "closed_sample resolution (nat resolution - 1) = 2 * pi \<and>
        pts ! (nat resolution - 1) = spec_curve_point p q (2 * pi)" if two: "2 \<le> resolution"
  proof -
    from two have "nat resolution - 1 < nat resolution"
      by simp
    with nth have
      "pts ! (nat resolution - 1) =
         spec_curve_point p q (closed_sample resolution (nat resolution - 1))"
      by blast
    with closed_sample_last [OF two] show ?thesis
      by (simp only: simp_thms)
  qed
  with eq len nth show ?thesis
    by blast
qed

theorem torus_knot_samples_closed_interval_witness:
  "(0::int) < 100 \<and>
   (\<exists>pts. torus_knot_points 2 3 100 = Inr pts \<and> length pts = 100 \<and>
      pts ! 0 = spec_curve_point 2 3 0 \<and>
      pts ! 33 = spec_curve_point 2 3 (2 * pi / 3) \<and>
      pts ! 99 = spec_curve_point 2 3 (2 * pi))"
proof -
  have pos: "(0::int) < 100"
    by simp
  from torus_knot_samples_closed_interval [OF pos, of 2 3] obtain pts where
    eq: "torus_knot_points 2 3 100 = Inr pts" and
    len: "length pts = nat 100" and
    nth: "\<forall>i < nat 100. pts ! i = spec_curve_point 2 3 (closed_sample 100 i)" and
    last: "(2::int) \<le> 100 \<longrightarrow>
             closed_sample 100 (nat 100 - 1) = 2 * pi \<and>
             pts ! (nat 100 - 1) = spec_curve_point 2 3 (2 * pi)"
    by blast
  from nth have "pts ! 0 = spec_curve_point 2 3 (closed_sample 100 0)"
    by simp
  then have first: "pts ! 0 = spec_curve_point 2 3 0"
    by (simp only: closed_sample_first)
  from nth have "pts ! 33 = spec_curve_point 2 3 (closed_sample 100 33)"
    by simp
  moreover have "closed_sample 100 33 = 2 * pi / 3"
    by (simp add: closed_sample_def)
  ultimately have third: "pts ! 33 = spec_curve_point 2 3 (2 * pi / 3)"
    by (simp only:)
  from last have "pts ! 99 = spec_curve_point 2 3 (2 * pi)"
    by simp
  with first third eq len pos show ?thesis
    by simp
qed

text \<open>
  The half-open sampling \<open>2\<pi>i / resolution\<close> is not what the builder computes: with the
  default arguments the last of the hundred samples is taken at \<open>2\<pi>\<close>, where the
  half-open sampling stops at \<open>2\<pi> * 99 / 100\<close>, a different point of the curve.
\<close>

theorem torus_knot_not_half_open_counterexample:
  "torus_knot_points 2 3 100 \<noteq> Inr (spec_half_open_samples 2 3 100)"
proof
  assume claim: "torus_knot_points 2 3 100 = Inr (spec_half_open_samples 2 3 100)"
  from torus_knot_points_nth [of 100 2 3] obtain pts where
    eq: "torus_knot_points 2 3 100 = Inr pts" and
    nth: "\<forall>i < nat 100. pts ! i = spec_curve_point 2 3 (closed_sample 100 i)"
    by auto
  from nth have "pts ! 99 = spec_curve_point 2 3 (closed_sample 100 (nat 100 - 1))"
    by simp
  also have "closed_sample 100 (nat 100 - 1) = 2 * pi"
    by (rule closed_sample_last) simp
  finally have code: "pts ! 99 = (3, 0, 0)"
    by (simp only: spec_curve_point_2pi)
  have "spec_half_open_samples 2 3 100 ! 99 = spec_curve_point 2 3 (2 * pi * 99 / 100)"
    by (simp add: spec_half_open_samples_def mult.commute)
  moreover from claim eq have "pts = spec_half_open_samples 2 3 100"
    by simp
  ultimately have "spec_curve_point 2 3 (2 * pi * 99 / 100) = (3, 0, 0)"
    using code by simp
  then have "sin (3 * (2 * pi * 99 / 100)) = 0"
    by (simp add: spec_curve_point_def Let_def)
  with sin_off_grid show False
    by contradiction
qed

text \<open>
  Claim C3, as the code has it. The builder does not check its resolution. A negative
  resolution fails with the \<^verbatim>\<open>ValueError\<close> of \<^verbatim>\<open>linspace\<close>, before the toolkit is
  called. For every resolution from \<open>0\<close> on, also \<open>0\<close>, \<open>1\<close> and \<open>2\<close>, the sampling
  succeeds with \<open>resolution\<close> points, and the builder returns what the toolkit's spline
  (given the points and twice the resolution) and tube (radius \<open>0.3\<close>, \<open>20\<close> sides) return:
  it fails only where the toolkit does.
\<close>

theorem create_torus_knot_unchecked:
  "(resolution < 0 \<longrightarrow> create_torus_knot Spline tube p q resolution = Inl ValueError) \<and>
   (0 \<le> resolution \<longrightarrow>
      (\<exists>points. torus_knot_points p q resolution = Inr points \<and>
         length points = nat resolution \<and>
         create_torus_knot Spline tube p q resolution =
           (case Spline points (resolution * 2) of
              Inl e \<Rightarrow> Inl e
            | Inr spline \<Rightarrow> tube spline 0.3 20)))"
proof (intro conjI impI)
  assume "resolution < 0"
  then show "create_torus_knot Spline tube p q resolution = Inl ValueError"
    by (simp add: create_torus_knot_def torus_knot_points_negative)
next
  assume "0 \<le> resolution"
  from torus_knot_points_nth [OF this, of p q] obtain pts where
    eq: "torus_knot_points p q resolution = Inr pts" and
    len: "length pts = nat resolution"
    by blast
  have "create_torus_knot Spline tube p q resolution =
          (case Spline pts (resolution * 2) of
             Inl e \<Rightarrow> Inl e
           | Inr spline \<Rightarrow> tube spline 0.3 20)"
    by (simp add: create_torus_knot_def eq)
  with eq len show "\<exists>points. torus_knot_points p q resolution = Inr points \<and>
         length points = nat resolution \<and>
         create_torus_knot Spline tube p q resolution =
           (case Spline points (resolution * 2) of
              Inl e \<Rightarrow> Inl e
            | Inr spline \<Rightarrow> tube spline 0.3 20)"
    by blast
qed

theorem create_torus_knot_unchecked_witness:
  "(- 1 :: int) < 0 \<and>
   create_torus_knot Spline_accepting tube_accepting 2 3 (- 1) = Inl ValueError \<and>
   (0 :: int) \<le> 1 \<and>
   (\<exists>points. torus_knot_points 2 3 1 = Inr points \<and> length points = 1 \<and>
      create_torus_knot Spline_accepting tube_accepting 2 3 1 = Inr ((points, 2), 0.3, 20))"
proof -
  from create_torus_knot_unchecked [of "- 1" Spline_accepting tube_accepting 2 3]
  have neg: "create_torus_knot Spline_accepting tube_accepting 2 3 (- 1) = Inl ValueError"
    by simp
  from create_torus_knot_unchecked [of 1 Spline_accepting tube_accepting 2 3]
  obtain points where
    "torus_knot_points 2 3 1 = Inr points" and "length points = nat 1" and
    "create_torus_knot Spline_accepting tube_accepting 2 3 1 =
       (case Spline_accepting points (1 * 2) of
          Inl e \<Rightarrow> Inl e
        | Inr spline \<Rightarrow> tube_accepting spline 0.3 20)"
    by auto
  then have "torus_knot_points 2 3 1 = Inr points \<and> length points = 1 \<and>
      create_torus_knot Spline_accepting tube_accepting 2 3 1 = Inr ((points, 2), 0.3, 20)"
    by (simp add: Spline_accepting_def tube_accepting_def)
  with neg show ?thesis
    by auto
qed

text \<open>
  With resolution \<open>2\<close> the sampling yields two points and the builder, over a toolkit that
  accepts them, returns a mesh.
\<close>

theorem create_torus_knot_accepts_two_counterexample:
  "torus_knot_points 2 3 2 = Inr [(3, 0, 0), (3, 0, 0)] \<and>
   create_torus_knot Spline_accepting tube_accepting 2 3 2 =
     Inr (([(3, 0, 0), (3, 0, 0)], 4), 0.3, 20)"
  by (simp add: create_torus_knot_def torus_knot_points_two Spline_accepting_def
      tube_accepting_def)

end
